theory Spec2Isabelle
  imports Complex_Main
begin

section \<open>Files and the quality table (src/lib/imageUtils.ts, types/image.ts)\<close>

text \<open>
  A browser \<open>File\<close>: the code reads its \<open>name\<close> and its \<open>size\<close> (a non-negative
  integer number of bytes); \<open>file_bytes\<close> stands for the content handed to the decoder.
\<close>

record File =
  file_name :: string
  file_size :: nat
  file_bytes :: "nat list"

text \<open>\<open>interface QualitySettings\<close>: one quality per size tier.\<close>

record QualitySettings =
  tiny :: nat
  small :: nat
  medium :: nat
  large :: nat
  xlarge :: nat
  huge :: nat

text \<open>\<open>interface QualityMap\<close> and the constant \<open>qualityMap\<close>.\<close>

record QualityMap =
  jpeg :: QualitySettings
  webp :: QualitySettings

definition qualityMap :: QualityMap where
  "qualityMap =
     \<lparr> jpeg = \<lparr> tiny = 90, small = 85, medium = 80, large = 70, xlarge = 60, huge = 50 \<rparr>,
       webp = \<lparr> tiny = 85, small = 80, medium = 75, large = 65, xlarge = 55, huge = 45 \<rparr> \<rparr>"

text \<open>
  \<open>getAutoQuality\<close>. The source divides the integer \<open>file.size\<close> by \<open>1024 * 1024\<close> in
  double precision; a division of an integer below \<open>2^53\<close> by a power of two is exact, and
  the thresholds 10, 5, 2, 1 and 0.5 are doubles, so the comparisons are those of the
  rational numbers.
\<close>

definition getAutoQuality :: "File \<Rightarrow> string \<Rightarrow> nat" where
  "getAutoQuality f format =
     (let sizeInMB = (of_nat (file_size f) :: rat) / (1024 * 1024);
          qualities = (if format = ''webp'' then webp qualityMap else jpeg qualityMap)
      in if sizeInMB > 10 then huge qualities
         else if sizeInMB > 5 then xlarge qualities
         else if sizeInMB > 2 then large qualities
         else if sizeInMB > 1 then medium qualities
         else if sizeInMB > 1 / 2 then small qualities
         else tiny qualities)"

subsection \<open>The estimator as the specification words it\<close>

datatype tier = Tiny | Small | Medium | Large | XLarge | Huge

text \<open>
  Section 4.1 of the specification: \<open>sizeMB = sizeBytes / 2^20\<close>, then the first matching
  tier of \<open>>10 huge, >5 xlarge, >2 large, >1 medium, >0.5 small, else tiny\<close>.
\<close>

definition spec_sizeMB :: "nat \<Rightarrow> rat" where
  "spec_sizeMB sizeBytes = of_nat sizeBytes / 2 ^ 20"

definition spec_tier :: "nat \<Rightarrow> tier" where
  "spec_tier sizeBytes =
     (if spec_sizeMB sizeBytes > 10 then Huge
      else if spec_sizeMB sizeBytes > 5 then XLarge
      else if spec_sizeMB sizeBytes > 2 then Large
      else if spec_sizeMB sizeBytes > 1 then Medium
      else if spec_sizeMB sizeBytes > 1 / 2 then Small
      else Tiny)"

text \<open>The table value of a format (\<open>jpeg\<close> or \<open>webp\<close>) at a tier.\<close>

fun tier_value :: "QualitySettings \<Rightarrow> tier \<Rightarrow> nat" where
  "tier_value q Tiny = tiny q"
| "tier_value q Small = small q"
| "tier_value q Medium = medium q"
| "tier_value q Large = large q"
| "tier_value q XLarge = xlarge q"
| "tier_value q Huge = huge q"

definition spec_table :: "string \<Rightarrow> QualitySettings option" where
  "spec_table format =
     (if format = ''jpeg'' then Some (jpeg qualityMap)
      else if format = ''webp'' then Some (webp qualityMap)
      else None)"

section \<open>The browser: object URLs, the image decoder and the canvas encoder\<close>

text \<open>
  \<open>URL.createObjectURL\<close> hands out a new URL at every call; a URL is modelled by the
  index of the call that created it. A \<open>Blob\<close> is what \<open>canvas.toBlob\<close> produces.
\<close>

type_synonym url = nat

record Blob =
  blob_type :: string
  blob_bytes :: "nat list"

datatype object = FileObject File | BlobObject Blob

text \<open>The canvas after \<open>canvas.width = img.width\<close>, \<open>canvas.height = img.height\<close> and
  \<open>drawImage(img, 0, 0)\<close>.\<close>

record canvas =
  canvas_width :: nat
  canvas_height :: nat
  canvas_image :: File

text \<open>
  What the program observes of the browser: the objects behind the URLs created so far,
  every \<open>revokeObjectURL\<close> call in order, every image load started (\<open>img.src = url\<close>),
  every \<open>canvas.toBlob\<close> call, the console, and the downloads triggered by \<open>a.click()\<close>
  (file name and \<open>href\<close>).
\<close>

record browser =
  created :: "object list"
  revoked :: "url list"
  decodes :: "url list"
  encodes :: "(canvas \<times> string \<times> rat) list"
  console :: "(string \<times> string) list"
  downloads :: "(string \<times> url) list"

definition new_browser :: browser where
  "new_browser = \<lparr> created = [], revoked = [], decodes = [], encodes = [],
                     console = [], downloads = [] \<rparr>"

definition createObjectURL :: "object \<Rightarrow> browser \<Rightarrow> url \<times> browser" where
  "createObjectURL obj br = (length (created br), br\<lparr>created := created br @ [obj]\<rparr>)"

definition revokeObjectURL :: "url \<Rightarrow> browser \<Rightarrow> browser" where
  "revokeObjectURL u br = br\<lparr>revoked := revoked br @ [u]\<rparr>"

definition console_error :: "string \<Rightarrow> string \<Rightarrow> browser \<Rightarrow> browser" where
  "console_error label msg br = br\<lparr>console := console br @ [(label, msg)]\<rparr>"

definition url_object :: "browser \<Rightarrow> url \<Rightarrow> object option" where
  "url_object br u = (if u < length (created br) then Some (created br ! u) else None)"

definition url_live :: "browser \<Rightarrow> url \<Rightarrow> bool" where
  "url_live br u = (u < length (created br) \<and> u \<notin> set (revoked br))"

definition release_count :: "browser \<Rightarrow> url \<Rightarrow> nat" where
  "release_count br u = count_list (revoked br) u"

text \<open>
  The codec of the browser is a parameter. \<open>image_load f\<close> is \<open>Some (width, height)\<close> when
  an \<open>img\<close> element whose source is \<open>f\<close> fires its \<open>load\<close> event, and \<open>None\<close> when the
  bytes do not decode: the element then fires \<open>error\<close>, and \<open>onload\<close> is never called.
  \<open>toBlob c type q\<close> is the argument that \<open>canvas.toBlob\<close> passes to its callback,
  \<open>None\<close> for \<open>null\<close>.
\<close>

record codec =
  image_load :: "File \<Rightarrow> (nat \<times> nat) option"
  toBlob :: "canvas \<Rightarrow> string \<Rightarrow> rat \<Rightarrow> Blob option"

text \<open>The state of a promise when nothing more can happen to it: \<open>Pending\<close> is a promise
  that never settles.\<close>

datatype 'a promise = Resolved 'a | Rejected string | Pending

section \<open>convertImage and generatePreview (src/lib/imageUtils.ts)\<close>

text \<open>
  \<open>convertImage\<close> up to its first \<open>await\<close> (lines 61 to 67): the object URL is created
  and assigned to \<open>img.src\<close>.
\<close>

definition convertImage_start :: "File \<Rightarrow> browser \<Rightarrow> url \<times> browser" where
  "convertImage_start f br =
     (let (objectUrl, br1) = createObjectURL (FileObject f) br
      in (objectUrl, br1\<lparr>decodes := decodes br1 @ [objectUrl]\<rparr>))"

text \<open>
  The \<open>try\<close> / \<open>finally\<close> block (lines 69 to 89). The promise awaited first is resolved
  by \<open>img.onload\<close> only and has no \<open>reject\<close>: when the image does not load, the function
  stays suspended there. Otherwise the image is drawn on a canvas of its size and the
  canvas is encoded as \<open>image/format\<close> at \<open>quality / 100\<close>; a \<open>null\<close> blob rejects
  with \<open>Failed to convert image\<close>; the \<open>finally\<close> block revokes the object URL on
  both ways out.
\<close>

definition convertImage_finish ::
  "codec \<Rightarrow> File \<Rightarrow> string \<Rightarrow> nat \<Rightarrow> url \<Rightarrow> browser \<Rightarrow> Blob promise \<times> browser" where
  "convertImage_finish env f format quality objectUrl br =
     (case image_load env f of
        None \<Rightarrow> (Pending, br)
      | Some (w, h) \<Rightarrow>
          (let c = \<lparr> canvas_width = w, canvas_height = h, canvas_image = f \<rparr>;
               mime = ''image/'' @ format;
               q = of_nat quality / 100;
               br1 = br\<lparr>encodes := encodes br @ [(c, mime, q)]\<rparr>
           in case toBlob env c mime q of
                None \<Rightarrow> (Rejected ''Failed to convert image'', revokeObjectURL objectUrl br1)
              | Some b \<Rightarrow> (Resolved b, revokeObjectURL objectUrl br1)))"

definition convertImage ::
  "codec \<Rightarrow> File \<Rightarrow> string \<Rightarrow> nat \<Rightarrow> browser \<Rightarrow> Blob promise \<times> browser" where
  "convertImage env f format quality br =
     (let (objectUrl, br1) = convertImage_start f br
      in convertImage_finish env f format quality objectUrl br1)"

text \<open>\<open>generatePreview\<close>: the rest of it once \<open>convertImage\<close> has settled, and the whole.\<close>

definition generatePreview_then :: "Blob promise \<times> browser \<Rightarrow> url promise \<times> browser" where
  "generatePreview_then r =
     (case r of
        (Resolved blob, br) \<Rightarrow>
          (let (u, br1) = createObjectURL (BlobObject blob) br in (Resolved u, br1))
      | (Rejected e, br) \<Rightarrow> (Rejected e, br)
      | (Pending, br) \<Rightarrow> (Pending, br))"

definition generatePreview ::
  "codec \<Rightarrow> File \<Rightarrow> string \<Rightarrow> nat \<Rightarrow> browser \<Rightarrow> url promise \<times> browser" where
  "generatePreview env f format quality br =
     generatePreview_then (convertImage env f format quality br)"

section \<open>The page component (src/unnamed/part_001)\<close>

text \<open>
  The repository holds later revisions of this component and of \<open>convertImage\<close> in
  src/app/page.tsx: there the effect drops a result that arrives after its cleanup has
  run, and in the last revision \<open>handleConvert\<close> sets the \<open>error\<close> cell in its
  \<open>catch\<close> block and \<open>convertImage\<close> keeps the blobs it has produced in a map. The
  definitions below are those of the first revision.
\<close>

text \<open>
  A preview conversion that has been started and has not settled: the arguments of the
  \<open>generatePreview\<close> call and the object URL that \<open>convertImage\<close> created for it.
\<close>

record request =
  req_file :: File
  req_format :: string
  req_quality :: nat
  req_objectUrl :: url

text \<open>
  The \<open>useState\<close> cells of \<open>Home\<close>, the browser, the preview conversions in flight,
  every preview conversion issued so far (in order), and for each of the two effects the
  dependency array of its last run. The cleanup function returned by the last run of the
  preview effect closes over the \<open>livePreviewUrl\<close> of that array.
\<close>

record session =
  selectedFile :: "File option"
  previewUrl :: "url option"
  converting :: bool
  format :: string
  quality :: nat
  autoQuality :: bool
  livePreviewUrl :: "url option"
  error :: "string option"
  page_browser :: browser
  inflight :: "request list"
  issued :: "request list"
  preview_deps :: "File option \<times> nat \<times> string \<times> bool \<times> url option \<times> url option"
  auto_deps :: "File option \<times> string \<times> bool"

definition supportsQuality :: "session \<Rightarrow> bool" where
  "supportsQuality s = (format s \<in> set [''jpeg'', ''webp''])"

definition deps_of ::
  "session \<Rightarrow> File option \<times> nat \<times> string \<times> bool \<times> url option \<times> url option" where
  "deps_of s =
     (selectedFile s, quality s, format s, supportsQuality s, previewUrl s, livePreviewUrl s)"

definition auto_deps_of :: "session \<Rightarrow> File option \<times> string \<times> bool" where
  "auto_deps_of s = (selectedFile s, format s, autoQuality s)"

text \<open>The state after the first render: no file, \<open>jpeg\<close>, quality 95, auto quality on.\<close>

definition init :: session where
  "init = \<lparr> selectedFile = None, previewUrl = None, converting = False, format = ''jpeg'',
            quality = 95, autoQuality = True, livePreviewUrl = None, error = None,
            page_browser = new_browser, inflight = [], issued = [],
            preview_deps = (None, 95, ''jpeg'', True, None, None),
            auto_deps = (None, ''jpeg'', True) \<rparr>"

text \<open>
  \<open>updateLivePreview\<close> (lines 46 to 61) up to its \<open>await\<close>: without a file or with a
  format that has no quality it shows \<open>previewUrl\<close>; otherwise it revokes the current
  \<open>livePreviewUrl\<close> and starts \<open>generatePreview\<close>.
\<close>

definition updateLivePreview :: "session \<Rightarrow> session" where
  "updateLivePreview s =
     (case selectedFile s of
        None \<Rightarrow> s\<lparr>livePreviewUrl := previewUrl s\<rparr>
      | Some f \<Rightarrow>
          if \<not> supportsQuality s then s\<lparr>livePreviewUrl := previewUrl s\<rparr>
          else
            (let br0 = (case livePreviewUrl s of
                          Some u \<Rightarrow> revokeObjectURL u (page_browser s)
                        | None \<Rightarrow> page_browser s);
                 (objectUrl, br1) = convertImage_start f br0;
                 r = \<lparr> req_file = f, req_format = format s, req_quality = quality s,
                       req_objectUrl = objectUrl \<rparr>
             in s\<lparr>page_browser := br1, inflight := inflight s @ [r],
                   issued := issued s @ [r]\<rparr>))"

text \<open>
  The rest of \<open>updateLivePreview\<close>, when the conversion in flight at position \<open>i\<close>
  settles: \<open>setLivePreviewUrl(newPreviewUrl)\<close>, or the \<open>catch\<close> block, which logs. A
  conversion whose image never loads never gets here.
\<close>

definition previewSettled :: "codec \<Rightarrow> nat \<Rightarrow> session \<Rightarrow> session" where
  "previewSettled env i s =
     (if length (inflight s) \<le> i then s
      else
        (let r = inflight s ! i;
             rest = take i (inflight s) @ drop (Suc i) (inflight s)
         in case generatePreview_then
                   (convertImage_finish env (req_file r) (req_format r) (req_quality r)
                      (req_objectUrl r) (page_browser s)) of
              (Resolved newPreviewUrl, br) \<Rightarrow>
                s\<lparr>page_browser := br, inflight := rest, livePreviewUrl := Some newPreviewUrl\<rparr>
            | (Rejected e, br) \<Rightarrow>
                s\<lparr>page_browser := console_error ''Error updating live preview:'' e br,
                  inflight := rest\<rparr>
            | (Pending, br) \<Rightarrow> s))"

text \<open>The cleanup function that the preview effect returns (lines 65 to 69).\<close>

definition effect_cleanup :: "url option \<Rightarrow> browser \<Rightarrow> browser" where
  "effect_cleanup livePreviewUrl_captured br =
     (case livePreviewUrl_captured of Some u \<Rightarrow> revokeObjectURL u br | None \<Rightarrow> br)"

text \<open>
  The preview effect as React runs it after a render: when an entry of its dependency
  array (line 70) differs from the last run, the cleanup of the last run is called and
  then the effect body. React compares the entries by identity and the model by value;
  the two differ only when an equal file is chosen again, and then \<open>previewUrl\<close> is
  a new URL and the effect runs in both.
\<close>

definition preview_effect :: "session \<Rightarrow> session" where
  "preview_effect s =
     (if preview_deps s = deps_of s then s
      else
        (case preview_deps s of
           (_, _, _, _, _, captured) \<Rightarrow>
             updateLivePreview
               (s\<lparr>page_browser := effect_cleanup captured (page_browser s),
                   preview_deps := deps_of s\<rparr>)))"

text \<open>The second effect (lines 73 to 78): the automatic quality.\<close>

definition auto_effect :: "session \<Rightarrow> session" where
  "auto_effect s =
     (if auto_deps s = auto_deps_of s then s
      else
        (let s1 = s\<lparr>auto_deps := auto_deps_of s\<rparr>
         in case selectedFile s of
              None \<Rightarrow> s1
            | Some f \<Rightarrow>
                if autoQuality s then s1\<lparr>quality := getAutoQuality f (format s)\<rparr> else s1))"

text \<open>
  The effects have run to the end when no dependency array differs from its last run.
\<close>

definition effects_done :: "session \<Rightarrow> bool" where
  "effects_done s = (preview_deps s = deps_of s \<and> auto_deps s = auto_deps_of s)"

text \<open>
  A render and its effects. The effects run in the order of their declaration; a state
  update made by an effect causes one more render, after which only the preview effect can
  have a changed dependency. Two more runs of it are enough in every state: after them
  \<open>effects_done\<close> holds (lemma \<open>commit_effects_done\<close>).
\<close>

definition commit :: "session \<Rightarrow> session" where
  "commit s = preview_effect (preview_effect (auto_effect (preview_effect s)))"

text \<open>\<open>handleFileChange\<close> (lines 80 to 101); \<open>None\<close> is a change event without a file.\<close>

definition handleFileChange :: "File option \<Rightarrow> session \<Rightarrow> session" where
  "handleFileChange chosen s =
     (let s0 = s\<lparr>error := None\<rparr>
      in case chosen of
           None \<Rightarrow> s0
         | Some f \<Rightarrow>
             (let maxSize = 20 * 1024 * 1024
              in if file_size f > maxSize
                 then s0\<lparr>error := Some ''File size exceeds 20MB limit''\<rparr>
                 else
                   (let (u, br) = createObjectURL (FileObject f) (page_browser s0);
                        s1 = s0\<lparr>selectedFile := Some f, previewUrl := Some u,
                                page_browser := br\<rparr>
                    in if autoQuality s then s1\<lparr>quality := getAutoQuality f (format s)\<rparr>
                       else s1)))"

text \<open>JavaScript's \<open>split\<close> and \<open>join\<close> on a separator character.\<close>

fun split :: "char \<Rightarrow> string \<Rightarrow> string list" where
  "split c [] = [[]]"
| "split c (x # xs) =
     (if x = c then [] # split c xs
      else (x # hd (split c xs)) # tl (split c xs))"

fun join :: "char \<Rightarrow> string list \<Rightarrow> string" where
  "join c [] = []"
| "join c [p] = p"
| "join c (p # q # ps) = p @ c # join c (q # ps)"

text \<open>
  \<open>handleConvert\<close> (lines 103 to 125). It reads the file, the format and the quality once
  and then only writes \<open>converting\<close>, so the awaited conversion is taken in one step; when
  the conversion never settles, neither the \<open>catch\<close> nor the \<open>finally\<close> block is reached.
\<close>

definition handleConvert :: "codec \<Rightarrow> session \<Rightarrow> session" where
  "handleConvert env s =
     (case selectedFile s of
        None \<Rightarrow> s
      | Some f \<Rightarrow>
          (let s1 = s\<lparr>converting := True\<rparr>
           in case convertImage env f (format s) (quality s) (page_browser s1) of
                (Resolved blob, br) \<Rightarrow>
                  (let (u, br1) = createObjectURL (BlobObject blob) br;
                       originalName = join CHR ''.'' (butlast (split CHR ''.'' (file_name f)));
                       br2 = br1\<lparr>downloads := downloads br1
                                      @ [(originalName @ ''-'' @ format s, u)]\<rparr>
                   in s1\<lparr>page_browser := revokeObjectURL u br2, converting := False\<rparr>)
              | (Rejected e, br) \<Rightarrow>
                  s1\<lparr>page_browser := console_error ''Error converting image:'' e br,
                     converting := False\<rparr>
              | (Pending, br) \<Rightarrow> s1\<lparr>page_browser := br\<rparr>))"

text \<open>
  What the component renders (lines 127 to 225): the file name, the selected format, the
  quality controls when the format has a quality, the submit button, and the preview
  image. The \<open>error\<close> cell is not rendered.
\<close>

record view =
  description :: string
  format_value :: string
  quality_control :: "(bool \<times> nat) option"
  button_disabled :: bool
  button_text :: string
  preview_src :: "url option"

definition render :: "session \<Rightarrow> view" where
  "render s =
     \<lparr> description = (case selectedFile s of Some f \<Rightarrow> file_name f | None \<Rightarrow> ''No file selected''),
       format_value = format s,
       quality_control = (if supportsQuality s then Some (autoQuality s, quality s) else None),
       button_disabled = (selectedFile s = None \<or> converting s),
       button_text = (if converting s then ''Converting...'' else ''Download Image''),
       preview_src =
         (case previewUrl s of
            None \<Rightarrow> None
          | Some p \<Rightarrow>
              if supportsQuality s
              then (case livePreviewUrl s of Some l \<Rightarrow> Some l | None \<Rightarrow> Some p)
              else Some p) \<rparr>"

text \<open>
  What can happen to the page: the user's actions on the controls that are rendered and
  enabled, and the settling of a preview conversion in flight, in any order.
\<close>

datatype event =
    FileChange "File option"
  | FormatChange string
  | SliderChange nat
  | AutoChange bool
  | PreviewSettled nat
  | Submit

fun step :: "codec \<Rightarrow> session \<Rightarrow> event \<Rightarrow> session" where
  "step env s (FileChange chosen) = commit (handleFileChange chosen s)"
| "step env s (FormatChange fmt) = commit (s\<lparr>format := fmt\<rparr>)"
| "step env s (SliderChange q) =
     (if supportsQuality s then commit (s\<lparr>autoQuality := False, quality := q\<rparr>) else s)"
| "step env s (AutoChange checked) =
     (if supportsQuality s then commit (s\<lparr>autoQuality := checked\<rparr>) else s)"
| "step env s (PreviewSettled i) = commit (previewSettled env i s)"
| "step env s Submit =
     (if selectedFile s = None \<or> converting s then s else commit (handleConvert env s))"

definition run :: "codec \<Rightarrow> session \<Rightarrow> event list \<Rightarrow> session" where
  "run env s es = foldl (step env) s es"

subsection \<open>Requests and their results\<close>

text \<open>
  How a preview conversion ends is fixed by its file, format and quality: the outcome of
  the \<open>try\<close> block of \<open>convertImage\<close> for it.
\<close>

definition request_outcome :: "codec \<Rightarrow> request \<Rightarrow> Blob promise" where
  "request_outcome env r =
     fst (convertImage_finish env (req_file r) (req_format r) (req_quality r)
            (req_objectUrl r) new_browser)"

text \<open>
  The live preview URL that is on display, when a file is selected and the format has a
  quality, is a URL that has been revoked.
\<close>

definition shown_revoked :: "session \<Rightarrow> bool" where
  "shown_revoked s =
     (case selectedFile s of
        None \<Rightarrow> True
      | Some f \<Rightarrow>
          if supportsQuality s
          then (case livePreviewUrl s of
                  None \<Rightarrow> True
                | Some u \<Rightarrow> u \<in> set (revoked (page_browser s)))
          else True)"

section \<open>A concrete codec and concrete files\<close>

text \<open>
  A file decodes when it has at least two bytes, which then give its width and height; a
  canvas without pixels encodes to \<open>null\<close>, as the HTML standard has it; any other canvas
  encodes to the image's bytes followed by the quality in percent.
\<close>

definition demo_codec :: codec where
  "demo_codec =
     \<lparr> image_load = (\<lambda>f. case file_bytes f of w # h # _ \<Rightarrow> Some (w, h) | _ \<Rightarrow> None),
       toBlob = (\<lambda>c mime q.
          if canvas_width c = 0 \<or> canvas_height c = 0 then None
          else Some \<lparr> blob_type = mime,
                      blob_bytes = file_bytes (canvas_image c) @ [nat \<lfloor>q * 100\<rfloor>] \<rparr>) \<rparr>"

definition photo :: File where
  "photo = \<lparr> file_name = ''photo.png'', file_size = 3145728, file_bytes = [4, 3, 7] \<rparr>"

definition empty_image :: File where
  "empty_image = \<lparr> file_name = ''empty.svg'', file_size = 120, file_bytes = [0, 0] \<rparr>"

definition notes_txt :: File where
  "notes_txt = \<lparr> file_name = ''notes.png'', file_size = 12, file_bytes = [] \<rparr>"

text \<open>The same preview requested twice, one call after the other has settled.\<close>

definition first_preview :: "url promise \<times> browser" where
  "first_preview = generatePreview demo_codec photo ''jpeg'' 70 new_browser"

definition second_preview :: "url promise \<times> browser" where
  "second_preview = generatePreview demo_codec photo ''jpeg'' 70 (snd first_preview)"

text \<open>
  Four sessions. In the first a photo is chosen, the slider is moved while the first
  preview conversion is in flight, and the second conversion settles before the first. In
  the second a photo is previewed and then an image without pixels is chosen, whose
  preview conversion fails. In the third that image is submitted for download. In the
  fourth a photo is chosen and two preview conversions settle.
\<close>

definition race_events :: "event list" where
  "race_events = [FileChange (Some photo), SliderChange 50, PreviewSettled 1, PreviewSettled 0]"

definition failing_preview_events :: "event list" where
  "failing_preview_events =
     [FileChange (Some photo), PreviewSettled 0, FileChange (Some empty_image), PreviewSettled 1]"

definition failing_download_events :: "event list" where
  "failing_download_events = [FileChange (Some empty_image), Submit]"

definition two_previews_events :: "event list" where
  "two_previews_events = [FileChange (Some photo), PreviewSettled 0, PreviewSettled 0]"

section \<open>The quality estimator\<close>

lemma spec_sizeMB_gt:
  "(spec_sizeMB n > of_nat k) = (n > k * 1048576)"
proof -
  have "(of_nat n / (1048576::rat) > of_nat k) = ((of_nat n :: rat) > of_nat (k * 1048576))"
    by (simp add: pos_less_divide_eq)
  also have "\<dots> = (n > k * 1048576)"
    by (simp only: of_nat_less_iff)
  finally show ?thesis by (simp add: spec_sizeMB_def)
qed

lemma spec_sizeMB_gt_half:
  "(spec_sizeMB n > 1 / 2) = (n > 524288)"
proof -
  have "(of_nat n / (1048576::rat) > 1 / 2) = ((of_nat n :: rat) > of_nat 524288)"
    by (simp add: pos_less_divide_eq)
  also have "\<dots> = (n > 524288)"
    by (simp only: of_nat_less_iff)
  finally show ?thesis by (simp add: spec_sizeMB_def)
qed

lemma spec_tier_bytes:
  "spec_tier n =
     (if n > 10485760 then Huge
      else if n > 5242880 then XLarge
      else if n > 2097152 then Large
      else if n > 1048576 then Medium
      else if n > 524288 then Small
      else Tiny)"
  using spec_sizeMB_gt [of 10 n] spec_sizeMB_gt [of 5 n] spec_sizeMB_gt [of 2 n]
    spec_sizeMB_gt [of 1 n] spec_sizeMB_gt_half [of n]
  by (simp add: spec_tier_def)

lemma getAutoQuality_tier:
  "getAutoQuality f fmt =
     tier_value (if fmt = ''webp'' then webp qualityMap else jpeg qualityMap)
       (spec_tier (file_size f))"
  by (simp add: getAutoQuality_def spec_tier_def spec_sizeMB_def Let_def)

lemma getAutoQuality_bytes:
  "getAutoQuality f fmt =
     (let q = (if fmt = ''webp'' then webp qualityMap else jpeg qualityMap);
          n = file_size f
      in if n > 10485760 then huge q
         else if n > 5242880 then xlarge q
         else if n > 2097152 then large q
         else if n > 1048576 then medium q
         else if n > 524288 then small q
         else tiny q)"
  by (simp add: getAutoQuality_tier spec_tier_bytes Let_def)

text \<open>
  Claim C1. For the formats \<open>jpeg\<close> and \<open>webp\<close> and every file size, \<open>getAutoQuality\<close>
  returns the table value of the format at the tier that the specification's
  classification (\<open>sizeMB = sizeBytes / 2^20\<close>, boundaries exclusive above) assigns; a
  file of exactly 1 MB (1048576 bytes) is in tier \<open>small\<close> (jpeg 85, webp 80), and a
  file of 3 MB is in tier \<open>large\<close> (jpeg 70, webp 65).
\<close>

theorem getAutoQuality_table_value:
  "(fmt = ''jpeg'' \<or> fmt = ''webp'' \<longrightarrow>
      (\<exists>q. spec_table fmt = Some q \<and>
           getAutoQuality f fmt = tier_value q (spec_tier (file_size f))))
   \<and> spec_tier 1048576 = Small
   \<and> getAutoQuality (f\<lparr>file_size := 1048576\<rparr>) ''jpeg'' = 85
   \<and> getAutoQuality (f\<lparr>file_size := 1048576\<rparr>) ''webp'' = 80
   \<and> spec_tier (3 * 1048576) = Large
   \<and> getAutoQuality (f\<lparr>file_size := 3 * 1048576\<rparr>) ''jpeg'' = 70
   \<and> getAutoQuality (f\<lparr>file_size := 3 * 1048576\<rparr>) ''webp'' = 65"
proof -
  have "fmt = ''jpeg'' \<or> fmt = ''webp'' \<longrightarrow>
      (\<exists>q. spec_table fmt = Some q \<and>
           getAutoQuality f fmt = tier_value q (spec_tier (file_size f)))"
    by (auto simp add: spec_table_def getAutoQuality_tier)
  moreover have "spec_tier 1048576 = Small" "spec_tier (3 * 1048576) = Large"
    by (simp_all add: spec_tier_bytes)
  moreover have "getAutoQuality (f\<lparr>file_size := 1048576\<rparr>) ''jpeg'' = 85"
    "getAutoQuality (f\<lparr>file_size := 1048576\<rparr>) ''webp'' = 80"
    "getAutoQuality (f\<lparr>file_size := 3 * 1048576\<rparr>) ''jpeg'' = 70"
    "getAutoQuality (f\<lparr>file_size := 3 * 1048576\<rparr>) ''webp'' = 65"
    by (simp_all add: getAutoQuality_bytes qualityMap_def)
  ultimately show ?thesis by blast
qed

theorem getAutoQuality_table_value_witness:
  "getAutoQuality \<lparr>file_name = ''photo.png'', file_size = 1153434, file_bytes = []\<rparr> ''webp''
     = tier_value (webp qualityMap) (spec_tier 1153434)
   \<and> getAutoQuality \<lparr>file_name = ''photo.png'', file_size = 1153434, file_bytes = []\<rparr> ''webp''
     = 75"
  using getAutoQuality_table_value
    [of "''webp''" "\<lparr>file_name = ''photo.png'', file_size = 1153434, file_bytes = []\<rparr>"]
  by (simp add: spec_table_def spec_tier_bytes qualityMap_def)




text \<open>
  Claim C10. For every fixed format, \<open>getAutoQuality\<close> is monotonically non-increasing
  in the file size, and its result lies between 45 and 90, hence within the quality
  range from 1 to 100.
\<close>

theorem getAutoQuality_antimono_bounded:
  "(file_size a \<le> file_size b \<longrightarrow> getAutoQuality b fmt \<le> getAutoQuality a fmt)
   \<and> 45 \<le> getAutoQuality a fmt \<and> getAutoQuality a fmt \<le> 90
   \<and> 1 \<le> getAutoQuality a fmt \<and> getAutoQuality a fmt \<le> 100"
  by (simp add: getAutoQuality_bytes qualityMap_def Let_def)

theorem getAutoQuality_antimono_bounded_witness:
  "file_size \<lparr>file_name = ''a.png'', file_size = 1048576, file_bytes = []\<rparr>
     \<le> file_size \<lparr>file_name = ''b.png'', file_size = 1048577, file_bytes = []\<rparr>
   \<and> getAutoQuality \<lparr>file_name = ''b.png'', file_size = 1048577, file_bytes = []\<rparr> ''jpeg'' = 80
   \<and> getAutoQuality \<lparr>file_name = ''a.png'', file_size = 1048576, file_bytes = []\<rparr> ''jpeg'' = 85
   \<and> getAutoQuality \<lparr>file_name = ''b.png'', file_size = 1048577, file_bytes = []\<rparr> ''jpeg''
       \<le> getAutoQuality \<lparr>file_name = ''a.png'', file_size = 1048576, file_bytes = []\<rparr> ''jpeg''"
  using getAutoQuality_antimono_bounded
    [of "\<lparr>file_name = ''a.png'', file_size = 1048576, file_bytes = []\<rparr>"
        "\<lparr>file_name = ''b.png'', file_size = 1048577, file_bytes = []\<rparr>" "''jpeg''"]
  by (simp add: getAutoQuality_bytes qualityMap_def)

section \<open>convertImage and generatePreview: properties\<close>


lemmas conv_defs = convertImage_def convertImage_start_def convertImage_finish_def
  createObjectURL_def revokeObjectURL_def generatePreview_def generatePreview_then_def

lemma convertImage_cases:
  "convertImage env f fmt q br =
     (let u = length (created br);
          br1 = br\<lparr>created := created br @ [FileObject f], decodes := decodes br @ [u]\<rparr>
      in case image_load env f of
           None \<Rightarrow> (Pending, br1)
         | Some (w, h) \<Rightarrow>
             (let c = \<lparr> canvas_width = w, canvas_height = h, canvas_image = f \<rparr>;
                  br2 = br1\<lparr>encodes := encodes br @ [(c, ''image/'' @ fmt, of_nat q / 100)],
                            revoked := revoked br @ [u]\<rparr>
              in case toBlob env c (''image/'' @ fmt) (of_nat q / 100) of
                   None \<Rightarrow> (Rejected ''Failed to convert image'', br2)
                 | Some b \<Rightarrow> (Resolved b, br2)))"
  by (simp add: conv_defs Let_def split: option.splits prod.splits)

lemma convertImage_never_loads:
  "image_load env f = None \<Longrightarrow>
     fst (convertImage env f fmt q br) = Pending
     \<and> revoked (snd (convertImage env f fmt q br)) = revoked br
     \<and> url_live (snd (convertImage env f fmt q br)) (length (created br)) = (length (created br) \<notin> set (revoked br))"
  by (simp add: convertImage_cases Let_def url_live_def)

lemma convertImage_settled_revokes:
  "fst (convertImage env f fmt q br) \<noteq> Pending \<Longrightarrow>
     revoked (snd (convertImage env f fmt q br)) = revoked br @ [length (created br)]
     \<and> created (snd (convertImage env f fmt q br)) = created br @ [FileObject f]"
  by (simp add: convertImage_cases Let_def split: option.splits prod.splits)

lemma generatePreview_decodes:
  "decodes (snd (generatePreview env f fmt q br)) = decodes br @ [length (created br)]"
  by (simp add: generatePreview_def generatePreview_then_def convertImage_cases createObjectURL_def Let_def split: option.splits prod.splits)


lemma generatePreview_unloadable:
  "image_load env f = None \<Longrightarrow>
     generatePreview env f fmt q br =
       (Pending, br\<lparr>created := created br @ [FileObject f],
                     decodes := decodes br @ [length (created br)]\<rparr>)"
  by (simp add: generatePreview_def generatePreview_then_def convertImage_cases Let_def)

lemma generatePreview_unencodable:
  "image_load env f = Some (w, h) \<Longrightarrow>
   toBlob env \<lparr> canvas_width = w, canvas_height = h, canvas_image = f \<rparr>
     (''image/'' @ fmt) (of_nat q / 100) = None \<Longrightarrow>
     generatePreview env f fmt q br =
       (Rejected ''Failed to convert image'',
        br\<lparr>created := created br @ [FileObject f],
           decodes := decodes br @ [length (created br)],
           encodes := encodes br @ [(\<lparr> canvas_width = w, canvas_height = h, canvas_image = f \<rparr>,
                                     ''image/'' @ fmt, of_nat q / 100)],
           revoked := revoked br @ [length (created br)]\<rparr>)"
  by (simp add: generatePreview_def generatePreview_then_def convertImage_cases Let_def)

lemma generatePreview_encoded:
  "image_load env f = Some (w, h) \<Longrightarrow>
   toBlob env \<lparr> canvas_width = w, canvas_height = h, canvas_image = f \<rparr>
     (''image/'' @ fmt) (of_nat q / 100) = Some b \<Longrightarrow>
     generatePreview env f fmt q br =
       (Resolved (Suc (length (created br))),
        br\<lparr>created := created br @ [FileObject f, BlobObject b],
           decodes := decodes br @ [length (created br)],
           encodes := encodes br @ [(\<lparr> canvas_width = w, canvas_height = h, canvas_image = f \<rparr>,
                                     ''image/'' @ fmt, of_nat q / 100)],
           revoked := revoked br @ [length (created br)]\<rparr>)"
  by (simp add: generatePreview_def generatePreview_then_def convertImage_cases Let_def
      createObjectURL_def)

text \<open>
  This \<open>convertImage\<close> keeps nothing between calls: requesting the same (file, format,
  quality) twice decodes twice and, when the image loads, encodes twice; when the first
  request resolves, the second resolves too, with a different preview URL for an equal
  blob.
\<close>

lemma generatePreview_recomputes:
  "length (decodes (snd (generatePreview env f fmt q (snd (generatePreview env f fmt q br)))))
     = length (decodes br) + 2
   \<and> (image_load env f \<noteq> None \<longrightarrow>
        length (encodes (snd (generatePreview env f fmt q (snd (generatePreview env f fmt q br)))))
          = length (encodes br) + 2)
   \<and> (\<forall>u1. fst (generatePreview env f fmt q br) = Resolved u1 \<longrightarrow>
        (\<exists>u2. fst (generatePreview env f fmt q (snd (generatePreview env f fmt q br))) = Resolved u2
           \<and> u2 \<noteq> u1
           \<and> url_object (snd (generatePreview env f fmt q (snd (generatePreview env f fmt q br)))) u2
             = url_object (snd (generatePreview env f fmt q (snd (generatePreview env f fmt q br)))) u1))"
proof (cases "image_load env f")
  case None
  then show ?thesis by (simp add: generatePreview_unloadable)
next
  case (Some d)
  obtain w h where d: "d = (w, h)" by (cases d)
  let ?c = "\<lparr> canvas_width = w, canvas_height = h, canvas_image = f \<rparr>"
  show ?thesis
  proof (cases "toBlob env ?c (''image/'' @ fmt) (of_nat q / 100)")
    case None
    with Some d show ?thesis by (simp add: generatePreview_unencodable)
  next
    case (Some b)
    with \<open>image_load env f = Some d\<close> d show ?thesis
      by (simp add: generatePreview_encoded url_object_def nth_append)
  qed
qed



lemma demo_load_photo: "image_load demo_codec photo = Some (4, 3)"
  by (simp add: demo_codec_def photo_def)

lemma demo_load_notes: "image_load demo_codec notes_txt = None"
  by (simp add: demo_codec_def notes_txt_def)

lemma demo_load_empty: "image_load demo_codec empty_image = Some (0, 0)"
  by (simp add: demo_codec_def empty_image_def)

lemma demo_toBlob_photo:
  "toBlob demo_codec \<lparr> canvas_width = 4, canvas_height = 3, canvas_image = photo \<rparr>
     (''image/'' @ fmt) (of_nat 70 / 100)
   = Some \<lparr> blob_type = ''image/'' @ fmt, blob_bytes = [4, 3, 7, 70] \<rparr>"
  by (simp add: demo_codec_def photo_def)

lemma demo_toBlob_photo_50:
  "toBlob demo_codec \<lparr> canvas_width = 4, canvas_height = 3, canvas_image = photo \<rparr>
     (''image/'' @ fmt) (of_nat 50 / 100)
   = Some \<lparr> blob_type = ''image/'' @ fmt, blob_bytes = [4, 3, 7, 50] \<rparr>"
  by (simp add: demo_codec_def photo_def)

lemma demo_toBlob_empty:
  "toBlob demo_codec \<lparr> canvas_width = 0, canvas_height = 0, canvas_image = empty_image \<rparr> mime q
   = None"
  by (simp add: demo_codec_def)

text \<open>
  Claim C3 at the same preview requested twice, the second call made after the first has
  resolved: the second call does not return a cached result, it loads the image again,
  calls \<open>canvas.toBlob\<close> again with the same arguments and returns another URL for an
  equal blob.
\<close>

theorem generatePreview_twice_invokes_codec:
  "fst first_preview = Resolved 1 \<and> fst second_preview = Resolved 3
   \<and> decodes (snd first_preview) = [0] \<and> length (encodes (snd first_preview)) = 1
   \<and> decodes (snd second_preview) = [0, 2]
   \<and> encodes (snd second_preview)
       = [(\<lparr> canvas_width = 4, canvas_height = 3, canvas_image = photo \<rparr>, ''image/jpeg'', 7 / 10),
          (\<lparr> canvas_width = 4, canvas_height = 3, canvas_image = photo \<rparr>, ''image/jpeg'', 7 / 10)]
   \<and> url_object (snd second_preview) 1 = url_object (snd second_preview) 3"
  by (simp add: first_preview_def second_preview_def new_browser_def url_object_def
      generatePreview_encoded [OF demo_load_photo demo_toBlob_photo])

text \<open>
  Claim C6 at a file whose bytes do not decode: \<open>convertImage\<close> does not reject, its
  promise never settles.
\<close>

theorem convertImage_undecodable_pending:
  "fst (convertImage demo_codec notes_txt ''jpeg'' 90 new_browser) = Pending"
  by (simp add: convertImage_cases demo_load_notes Let_def)

text \<open>
  Claim C5 at the same file: the object URL that \<open>convertImage\<close> created is never
  revoked and stays live.
\<close>

theorem convertImage_undecodable_leak:
  "created (snd (convertImage demo_codec notes_txt ''jpeg'' 90 new_browser)) = [FileObject notes_txt]
   \<and> revoked (snd (convertImage demo_codec notes_txt ''jpeg'' 90 new_browser)) = []
   \<and> url_live (snd (convertImage demo_codec notes_txt ''jpeg'' 90 new_browser)) 0"
  by (simp add: convertImage_cases demo_load_notes Let_def new_browser_def url_live_def)

section \<open>The page component: properties\<close>

subsection \<open>What the effects change, and when they are done\<close>

lemma supportsQuality_cong:
  "format s' = format s \<Longrightarrow> supportsQuality s' = supportsQuality s"
  by (simp add: supportsQuality_def)

lemma updateLivePreview_fields:
  "selectedFile (updateLivePreview s) = selectedFile s"
  "previewUrl (updateLivePreview s) = previewUrl s"
  "converting (updateLivePreview s) = converting s"
  "format (updateLivePreview s) = format s"
  "quality (updateLivePreview s) = quality s"
  "autoQuality (updateLivePreview s) = autoQuality s"
  "error (updateLivePreview s) = error s"
  "preview_deps (updateLivePreview s) = preview_deps s"
  "auto_deps (updateLivePreview s) = auto_deps s"
  "livePreviewUrl (updateLivePreview s) =
     (if selectedFile s = None \<or> \<not> supportsQuality s then previewUrl s else livePreviewUrl s)"
  by (simp_all add: updateLivePreview_def convertImage_start_def createObjectURL_def Let_def
      split: option.splits)

lemma preview_effect_fields:
  "selectedFile (preview_effect s) = selectedFile s"
  "previewUrl (preview_effect s) = previewUrl s"
  "converting (preview_effect s) = converting s"
  "format (preview_effect s) = format s"
  "quality (preview_effect s) = quality s"
  "autoQuality (preview_effect s) = autoQuality s"
  "error (preview_effect s) = error s"
  "auto_deps (preview_effect s) = auto_deps s"
  "preview_deps (preview_effect s) = deps_of s"
  "livePreviewUrl (preview_effect s) =
     (if preview_deps s \<noteq> deps_of s \<and> (selectedFile s = None \<or> \<not> supportsQuality s)
      then previewUrl s else livePreviewUrl s)"
  by (simp_all add: preview_effect_def updateLivePreview_fields supportsQuality_def deps_of_def
      split: prod.splits)

lemma preview_effect_supportsQuality:
  "supportsQuality (preview_effect s) = supportsQuality s"
  by (simp add: supportsQuality_def preview_effect_fields)

lemma preview_effect_idle: "preview_deps s = deps_of s \<Longrightarrow> preview_effect s = s"
  by (simp add: preview_effect_def)

lemma auto_effect_fields:
  "selectedFile (auto_effect s) = selectedFile s"
  "previewUrl (auto_effect s) = previewUrl s"
  "converting (auto_effect s) = converting s"
  "format (auto_effect s) = format s"
  "autoQuality (auto_effect s) = autoQuality s"
  "error (auto_effect s) = error s"
  "livePreviewUrl (auto_effect s) = livePreviewUrl s"
  "preview_deps (auto_effect s) = preview_deps s"
  "page_browser (auto_effect s) = page_browser s"
  "inflight (auto_effect s) = inflight s"
  "issued (auto_effect s) = issued s"
  "auto_deps (auto_effect s) = auto_deps_of s"
  by (simp_all add: auto_effect_def auto_deps_of_def Let_def split: option.splits)

lemma auto_effect_idle: "auto_deps s = auto_deps_of s \<Longrightarrow> auto_effect s = s"
  by (simp add: auto_effect_def)

lemma preview_effect_twice_done:
  "preview_deps (preview_effect (preview_effect s)) = deps_of (preview_effect (preview_effect s))"
  by (simp add: deps_of_def preview_effect_fields preview_effect_supportsQuality)

lemma commit_effects_done: "effects_done (commit s)"
proof -
  have "preview_deps (commit s) = deps_of (commit s)"
    unfolding commit_def by (rule preview_effect_twice_done)
  moreover have "auto_deps (commit s) = auto_deps_of (commit s)"
    by (simp add: commit_def preview_effect_fields auto_effect_fields auto_deps_of_def)
  ultimately show ?thesis by (simp add: effects_done_def)
qed

lemma commit_idle: "effects_done s \<Longrightarrow> commit s = s"
  by (simp add: effects_done_def commit_def preview_effect_idle auto_effect_idle)

lemma commit_fixpoint:
  "preview_effect (commit s) = commit s" "auto_effect (commit s) = commit s"
  using commit_effects_done [of s]
  by (simp_all add: effects_done_def preview_effect_idle auto_effect_idle)


lemma convertImage_finish_outcome:
  "fst (convertImage_finish env f fmt q u br) = fst (convertImage_finish env f fmt q u br')"
  by (simp add: convertImage_finish_def Let_def split: option.splits prod.splits)

lemma request_outcome_eq:
  "fst (convertImage_finish env (req_file r) (req_format r) (req_quality r) (req_objectUrl r) br)
     = request_outcome env r"
  unfolding request_outcome_def by (rule convertImage_finish_outcome)

lemma convertImage_finish_browser:
  "created (snd (convertImage_finish env f fmt q u br)) = created br"
  "console (snd (convertImage_finish env f fmt q u br)) = console br"
  "downloads (snd (convertImage_finish env f fmt q u br)) = downloads br"
  by (simp_all add: convertImage_finish_def revokeObjectURL_def Let_def
      split: option.splits prod.splits)

lemma updateLivePreview_created:
  "\<exists>xs. created (page_browser (updateLivePreview s)) = created (page_browser s) @ xs"
  by (simp add: updateLivePreview_def convertImage_start_def createObjectURL_def
      revokeObjectURL_def Let_def split: option.splits)

lemma preview_effect_created:
  "\<exists>xs. created (page_browser (preview_effect s)) = created (page_browser s) @ xs"
proof (cases "preview_deps s = deps_of s")
  case True
  then show ?thesis by (simp add: preview_effect_idle)
next
  case False
  obtain a b c d e captured where deps: "preview_deps s = (a, b, c, d, e, captured)"
    by (cases "preview_deps s") auto
  let ?s1 = "s\<lparr>page_browser := effect_cleanup captured (page_browser s),
                preview_deps := deps_of s\<rparr>"
  have "created (page_browser ?s1) = created (page_browser s)"
    by (simp add: effect_cleanup_def revokeObjectURL_def split: option.splits)
  moreover have "preview_effect s = updateLivePreview ?s1"
    using False deps by (simp add: preview_effect_def)
  ultimately show ?thesis using updateLivePreview_created [of ?s1] by simp
qed

lemma commit_created:
  "\<exists>xs. created (page_browser (commit s)) = created (page_browser s) @ xs"
proof -
  let ?a = "preview_effect s"
  let ?b = "auto_effect ?a"
  let ?c = "preview_effect ?b"
  obtain xs where 1: "created (page_browser ?a) = created (page_browser s) @ xs"
    using preview_effect_created by blast
  have 2: "created (page_browser ?b) = created (page_browser ?a)"
    by (simp add: auto_effect_fields)
  obtain ys where 3: "created (page_browser ?c) = created (page_browser ?b) @ ys"
    using preview_effect_created by blast
  obtain zs where 4: "created (page_browser (preview_effect ?c)) = created (page_browser ?c) @ zs"
    using preview_effect_created by blast
  from 1 2 3 4 show ?thesis by (simp add: commit_def)
qed

lemma url_object_append:
  "u < length (created br) \<Longrightarrow> created br' = created br @ xs \<Longrightarrow>
     url_object br' u = url_object br u"
  by (simp add: url_object_def nth_append)

lemma preview_effect_livePreviewUrl:
  "selectedFile s = Some f \<Longrightarrow> supportsQuality s \<Longrightarrow>
     livePreviewUrl (preview_effect s) = livePreviewUrl s"
  by (simp add: preview_effect_fields)

lemma commit_livePreviewUrl:
  assumes "selectedFile s = Some f" and "supportsQuality s"
  shows "livePreviewUrl (commit s) = livePreviewUrl s"
proof -
  let ?a = "preview_effect s"
  let ?b = "auto_effect ?a"
  let ?c = "preview_effect ?b"
  have a: "selectedFile ?a = Some f" "supportsQuality ?a"
    using assms by (simp_all add: preview_effect_fields preview_effect_supportsQuality)
  have b: "selectedFile ?b = Some f" "supportsQuality ?b"
    using a by (simp_all add: auto_effect_fields supportsQuality_def)
  have c: "selectedFile ?c = Some f" "supportsQuality ?c"
    using b by (simp_all add: preview_effect_fields preview_effect_supportsQuality)
  have "livePreviewUrl (preview_effect ?c) = livePreviewUrl ?c"
    using c by (rule preview_effect_livePreviewUrl)
  also have "\<dots> = livePreviewUrl ?b"
    using b by (rule preview_effect_livePreviewUrl)
  also have "\<dots> = livePreviewUrl ?a"
    by (simp add: auto_effect_fields)
  also have "\<dots> = livePreviewUrl s"
    using assms by (rule preview_effect_livePreviewUrl)
  finally show ?thesis by (simp add: commit_def)
qed

lemma previewSettled_resolved_fields:
  assumes "i < length (inflight s)" and "request_outcome env (inflight s ! i) = Resolved b"
  shows "livePreviewUrl (previewSettled env i s) = Some (length (created (page_browser s)))"
    and "created (page_browser (previewSettled env i s)) = created (page_browser s) @ [BlobObject b]"
    and "selectedFile (previewSettled env i s) = selectedFile s"
    and "format (previewSettled env i s) = format s"
proof -
  let ?r = "inflight s ! i"
  let ?fin = "convertImage_finish env (req_file ?r) (req_format ?r) (req_quality ?r)
                (req_objectUrl ?r) (page_browser s)"
  have out: "fst ?fin = Resolved b"
    using assms(2) by (simp add: request_outcome_eq)
  have cr: "created (snd ?fin) = created (page_browser s)"
    by (rule convertImage_finish_browser)
  obtain br' where fin: "?fin = (Resolved b, br')" and cr': "created br' = created (page_browser s)"
    using out cr by (cases ?fin) auto
  have eq: "previewSettled env i s =
      s\<lparr>page_browser := br'\<lparr>created := created br' @ [BlobObject b]\<rparr>,
         inflight := take i (inflight s) @ drop (Suc i) (inflight s),
         livePreviewUrl := Some (length (created br'))\<rparr>"
    using assms(1)
    by (simp add: previewSettled_def Let_def generatePreview_then_def createObjectURL_def fin)
  show "livePreviewUrl (previewSettled env i s) = Some (length (created (page_browser s)))"
    by (simp add: eq cr')
  show "created (page_browser (previewSettled env i s)) = created (page_browser s) @ [BlobObject b]"
    by (simp add: eq cr')
  show "selectedFile (previewSettled env i s) = selectedFile s" by (simp add: eq)
  show "format (previewSettled env i s) = format s" by (simp add: eq)
qed

lemma step_effects_done: "effects_done s \<Longrightarrow> effects_done (step env s e)"
  by (cases e) (simp_all add: commit_effects_done)

lemma init_effects_done: "effects_done init"
  by (simp add: effects_done_def init_def deps_of_def auto_deps_of_def supportsQuality_def)

lemma run_effects_done: "effects_done s \<Longrightarrow> effects_done (run env s es)"
  unfolding run_def
  by (induction es arbitrary: s) (simp_all add: step_effects_done)

lemma effects_done_cong:
  "effects_done (s\<lparr>page_browser := br, inflight := rs\<rparr>) = effects_done s"
  by (simp add: effects_done_def deps_of_def auto_deps_of_def supportsQuality_def)

lemma render_eq:
  "selectedFile a = selectedFile b \<Longrightarrow> format a = format b \<Longrightarrow> quality a = quality b \<Longrightarrow>
   autoQuality a = autoQuality b \<Longrightarrow> converting a = converting b \<Longrightarrow>
   previewUrl a = previewUrl b \<Longrightarrow> livePreviewUrl a = livePreviewUrl b \<Longrightarrow>
     render a = render b"
  by (simp add: render_def supportsQuality_cong [of a b] split: option.splits)

lemma previewSettled_rejected:
  assumes "i < length (inflight s)" and "request_outcome env (inflight s ! i) = Rejected e"
  shows "previewSettled env i s =
     s\<lparr>page_browser := console_error ''Error updating live preview:'' e
          (snd (convertImage_finish env (req_file (inflight s ! i)) (req_format (inflight s ! i))
                  (req_quality (inflight s ! i)) (req_objectUrl (inflight s ! i))
                  (page_browser s))),
        inflight := take i (inflight s) @ drop (Suc i) (inflight s)\<rparr>"
proof -
  let ?r = "inflight s ! i"
  let ?fin = "convertImage_finish env (req_file ?r) (req_format ?r) (req_quality ?r)
                (req_objectUrl ?r) (page_browser s)"
  have "fst ?fin = Rejected e"
    using assms(2) by (simp add: request_outcome_eq)
  then obtain br' where fin: "?fin = (Rejected e, br')"
    by (cases ?fin) auto
  show ?thesis
    using assms(1)
    by (simp add: previewSettled_def Let_def generatePreview_then_def fin)
qed

lemma updateLivePreview_revokes:
  "selectedFile s \<noteq> None \<Longrightarrow> supportsQuality s \<Longrightarrow> livePreviewUrl s = Some u \<Longrightarrow>
     u \<in> set (revoked (page_browser (updateLivePreview s)))"
  by (auto simp add: updateLivePreview_def convertImage_start_def createObjectURL_def
      revokeObjectURL_def Let_def)


subsection \<open>The live preview URL on display is a revoked URL\<close>


lemma shown_revoked_keep:
  assumes "shown_revoked s" and "deps_of x = deps_of s"
    and "set (revoked (page_browser s)) \<subseteq> set (revoked (page_browser x))"
  shows "shown_revoked x"
  using assms
  by (auto simp add: shown_revoked_def deps_of_def split: option.splits if_splits)

lemma updateLivePreview_shown_revoked: "shown_revoked (updateLivePreview s)"
  by (auto simp add: shown_revoked_def supportsQuality_def updateLivePreview_def
      convertImage_start_def createObjectURL_def revokeObjectURL_def Let_def
      split: option.splits)

lemma preview_effect_shown_revoked:
  "shown_revoked s \<or> preview_deps s \<noteq> deps_of s \<Longrightarrow> shown_revoked (preview_effect s)"
proof (cases "preview_deps s = deps_of s")
  case True
  assume "shown_revoked s \<or> preview_deps s \<noteq> deps_of s"
  with True show ?thesis by (simp add: preview_effect_idle)
next
  case False
  then show ?thesis
    by (simp add: preview_effect_def updateLivePreview_shown_revoked split: prod.splits)
qed

lemma auto_effect_shown_revoked: "shown_revoked s \<Longrightarrow> shown_revoked (auto_effect s)"
  by (auto simp add: shown_revoked_def auto_effect_fields supportsQuality_cong [of "auto_effect s" s]
      split: option.splits if_splits)

lemma commit_shown_revoked:
  "shown_revoked s \<or> preview_deps s \<noteq> deps_of s \<Longrightarrow> shown_revoked (commit s)"
  by (simp add: commit_def preview_effect_shown_revoked auto_effect_shown_revoked)

lemma commit_after:
  assumes "effects_done s" and "shown_revoked s"
    and "preview_deps x = preview_deps s"
    and "set (revoked (page_browser s)) \<subseteq> set (revoked (page_browser x))"
  shows "shown_revoked (commit x)"
proof (cases "deps_of x = deps_of s")
  case True
  with assms(2,4) have "shown_revoked x" by (intro shown_revoked_keep [of s x]) simp_all
  then show ?thesis by (simp add: commit_shown_revoked)
next
  case False
  with assms(1,3) have "preview_deps x \<noteq> deps_of x" by (simp add: effects_done_def)
  then show ?thesis by (simp add: commit_shown_revoked)
qed

lemma convertImage_finish_revoked:
  "set (revoked br) \<subseteq> set (revoked (snd (convertImage_finish env f fmt q u br)))"
  by (auto simp add: convertImage_finish_def revokeObjectURL_def Let_def
      split: option.splits prod.splits)

lemma previewSettled_keeps:
  "preview_deps (previewSettled env i s) = preview_deps s"
  "set (revoked (page_browser s)) \<subseteq> set (revoked (page_browser (previewSettled env i s)))"
proof -
  let ?r = "inflight s ! i"
  let ?fin = "convertImage_finish env (req_file ?r) (req_format ?r) (req_quality ?r)
                (req_objectUrl ?r) (page_browser s)"
  obtain out br' where fin: "?fin = (out, br')" by (cases ?fin)
  have sub: "set (revoked (page_browser s)) \<subseteq> set (revoked br')"
    using convertImage_finish_revoked [of "page_browser s" env "req_file ?r" "req_format ?r"
        "req_quality ?r" "req_objectUrl ?r"] fin by simp
  show "preview_deps (previewSettled env i s) = preview_deps s"
    by (cases out)
      (simp_all add: previewSettled_def Let_def fin generatePreview_then_def createObjectURL_def)
  show "set (revoked (page_browser s)) \<subseteq> set (revoked (page_browser (previewSettled env i s)))"
    using sub
    by (cases out)
      (auto simp add: previewSettled_def Let_def fin generatePreview_then_def createObjectURL_def
        console_error_def)
qed

lemma handleConvert_keeps:
  "preview_deps (handleConvert env s) = preview_deps s"
  "set (revoked (page_browser s)) \<subseteq> set (revoked (page_browser (handleConvert env s)))"
  by (auto simp add: handleConvert_def convertImage_cases createObjectURL_def revokeObjectURL_def
      console_error_def Let_def split: option.splits prod.splits promise.splits)

lemma handleFileChange_keeps:
  "preview_deps (handleFileChange chosen s) = preview_deps s"
  "revoked (page_browser (handleFileChange chosen s)) = revoked (page_browser s)"
  by (simp_all add: handleFileChange_def createObjectURL_def Let_def split: option.splits)

lemma step_shown_revoked:
  assumes "effects_done s" and "shown_revoked s"
  shows "shown_revoked (step env s e)"
proof (cases e)
  case (FileChange chosen)
  then show ?thesis
    using commit_after [OF assms, of "handleFileChange chosen s"]
    by (simp add: handleFileChange_keeps)
next
  case (FormatChange fmt)
  then show ?thesis using commit_after [OF assms, of "s\<lparr>format := fmt\<rparr>"] by simp
next
  case (SliderChange q)
  then show ?thesis
    using commit_after [OF assms, of "s\<lparr>autoQuality := False, quality := q\<rparr>"] assms(2)
    by simp
next
  case (AutoChange checked)
  then show ?thesis
    using commit_after [OF assms, of "s\<lparr>autoQuality := checked\<rparr>"] assms(2) by simp
next
  case (PreviewSettled i)
  then show ?thesis
    using commit_after [OF assms, of "previewSettled env i s"]
    by (simp add: previewSettled_keeps)
next
  case Submit
  then show ?thesis
    using commit_after [OF assms, of "handleConvert env s"] assms(2)
    by (simp add: handleConvert_keeps)
qed

lemma run_shown_revoked:
  "effects_done s \<Longrightarrow> shown_revoked s \<Longrightarrow> shown_revoked (run env s es)"
  unfolding run_def
  by (induction es arbitrary: s) (simp_all add: step_effects_done step_shown_revoked)

lemma init_shown_revoked: "shown_revoked init"
  by (simp add: shown_revoked_def init_def)

lemma reachable_shown_revoked: "shown_revoked (run env init es)"
  by (rule run_shown_revoked [OF init_effects_done init_shown_revoked])

subsection \<open>The concrete sessions\<close>

lemma photo_facts:
  "getAutoQuality photo ''jpeg'' = 70" "file_size photo = 3145728"
  "file_name photo = ''photo.png''"
  by (simp_all add: getAutoQuality_bytes qualityMap_def photo_def)

lemma empty_image_facts:
  "getAutoQuality empty_image ''jpeg'' = 90" "file_size empty_image = 120"
  "file_name empty_image = ''empty.svg''" "photo \<noteq> empty_image" "empty_image \<noteq> photo"
  by (simp_all add: getAutoQuality_bytes qualityMap_def photo_def empty_image_def)

lemma demo_codec_photo:
  "image_load demo_codec photo = Some (4, 3)"
  "toBlob demo_codec \<lparr> canvas_width = 4, canvas_height = 3, canvas_image = photo \<rparr>
     ''image/jpeg'' (7 / 10)
     = Some \<lparr> blob_type = ''image/jpeg'', blob_bytes = [4, 3, 7, 70] \<rparr>"
  "toBlob demo_codec \<lparr> canvas_width = 4, canvas_height = 3, canvas_image = photo \<rparr>
     ''image/jpeg'' (1 / 2)
     = Some \<lparr> blob_type = ''image/jpeg'', blob_bytes = [4, 3, 7, 50] \<rparr>"
  by (simp_all add: demo_codec_def photo_def)

lemma demo_codec_empty_image:
  "image_load demo_codec empty_image = Some (0, 0)"
  "toBlob demo_codec \<lparr> canvas_width = 0, canvas_height = 0, canvas_image = empty_image \<rparr>
     mime q = None"
  by (simp_all add: demo_codec_def empty_image_def)

lemmas run_defs = run_def commit_def preview_effect_def auto_effect_def updateLivePreview_def
  previewSettled_def effect_cleanup_def handleFileChange_def handleConvert_def
  supportsQuality_def deps_of_def auto_deps_of_def init_def new_browser_def
  convertImage_def convertImage_start_def convertImage_finish_def generatePreview_then_def
  createObjectURL_def revokeObjectURL_def console_error_def Let_def
  photo_facts empty_image_facts demo_codec_photo demo_codec_empty_image


subsection \<open>Claim C4: the order of completion\<close>

text \<open>
  The effect has no guard after its \<open>await\<close>: whenever a preview conversion in flight
  settles with a blob while a file is selected and the format has a quality, its result
  becomes the published preview, whichever requests have been issued after it.
\<close>

lemma preview_last_settled_wins:
  assumes "i < length (inflight s)"
    and "request_outcome env (inflight s ! i) = Resolved b"
    and "selectedFile s \<noteq> None" and "supportsQuality s"
  shows "livePreviewUrl (step env s (PreviewSettled i)) = Some (length (created (page_browser s)))
    \<and> url_object (page_browser (step env s (PreviewSettled i))) (length (created (page_browser s)))
        = Some (BlobObject b)"
proof -
  let ?t = "previewSettled env i s"
  let ?u = "length (created (page_browser s))"
  obtain f where f: "selectedFile s = Some f" using assms(3) by auto
  have t: "livePreviewUrl ?t = Some ?u"
    "created (page_browser ?t) = created (page_browser s) @ [BlobObject b]"
    "selectedFile ?t = Some f" "supportsQuality ?t"
    using previewSettled_resolved_fields [OF assms(1,2)] f assms(4)
    by (simp_all add: supportsQuality_def)
  have live: "livePreviewUrl (commit ?t) = Some ?u"
    using commit_livePreviewUrl [OF t(3,4)] t(1) by simp
  obtain xs where "created (page_browser (commit ?t)) = created (page_browser ?t) @ xs"
    using commit_created by blast
  then have "url_object (page_browser (commit ?t)) ?u = url_object (page_browser ?t) ?u"
    using t(2) by (intro url_object_append) simp_all
  also have "\<dots> = Some (BlobObject b)"
    by (simp add: url_object_def t(2))
  finally show ?thesis using live by simp
qed


text \<open>
  Claim C4 at a session in which the conversions settle out of order. Three requests
  have been issued, for the qualities 70, 50 and 50; the second has settled and its
  result, the blob of quality 50 at URL 3, is the preview. Then the request issued first
  settles: its result, the blob of quality 70 at URL 5, is not discarded but replaces
  the preview, while the quality selected is 50.
\<close>

theorem preview_stale_result_published:
  "map req_objectUrl (issued (run demo_codec init (butlast race_events))) = [1, 2, 4]
   \<and> map req_quality (issued (run demo_codec init (butlast race_events))) = [70, 50, 50]
   \<and> request_outcome demo_codec (issued (run demo_codec init (butlast race_events)) ! 0)
       = Resolved \<lparr> blob_type = ''image/jpeg'', blob_bytes = [4, 3, 7, 70] \<rparr>
   \<and> request_outcome demo_codec (issued (run demo_codec init (butlast race_events)) ! 1)
       = Resolved \<lparr> blob_type = ''image/jpeg'', blob_bytes = [4, 3, 7, 50] \<rparr>
   \<and> map req_objectUrl (inflight (run demo_codec init (butlast race_events))) = [1, 4]
   \<and> livePreviewUrl (run demo_codec init (butlast race_events)) = Some 3
   \<and> url_object (page_browser (run demo_codec init (butlast race_events))) 3
       = Some (BlobObject \<lparr> blob_type = ''image/jpeg'', blob_bytes = [4, 3, 7, 50] \<rparr>)
   \<and> last race_events = PreviewSettled 0
   \<and> livePreviewUrl (run demo_codec init race_events) = Some 5
   \<and> url_object (page_browser (run demo_codec init race_events)) 5
       = Some (BlobObject \<lparr> blob_type = ''image/jpeg'', blob_bytes = [4, 3, 7, 70] \<rparr>)
   \<and> preview_src (render (run demo_codec init race_events)) = Some 5
   \<and> quality (run demo_codec init race_events) = 50"
  by (simp add: race_events_def run_defs url_object_def request_outcome_def render_def)

subsection \<open>Claim C7: a preview conversion that fails\<close>

lemma preview_failure_step:
  assumes "i < length (inflight s)" and "request_outcome env (inflight s ! i) = Rejected e"
    and "effects_done s"
  shows "step env s (PreviewSettled i) =
     s\<lparr>page_browser := console_error ''Error updating live preview:'' e
          (snd (convertImage_finish env (req_file (inflight s ! i)) (req_format (inflight s ! i))
                  (req_quality (inflight s ! i)) (req_objectUrl (inflight s ! i))
                  (page_browser s))),
        inflight := take i (inflight s) @ drop (Suc i) (inflight s)\<rparr>"
proof -
  let ?t = "s\<lparr>page_browser := console_error ''Error updating live preview:'' e
          (snd (convertImage_finish env (req_file (inflight s ! i)) (req_format (inflight s ! i))
                  (req_quality (inflight s ! i)) (req_objectUrl (inflight s ! i))
                  (page_browser s))),
        inflight := take i (inflight s) @ drop (Suc i) (inflight s)\<rparr>"
  have settled: "previewSettled env i s = ?t"
    using assms(1,2) by (rule previewSettled_rejected)
  from assms(3) have "effects_done ?t" by (simp only: effects_done_cong)
  then have "commit ?t = ?t" by (rule commit_idle)
  with settled show ?thesis by simp
qed

text \<open>
  In every state that the page can reach, when a preview conversion in flight rejects,
  the error is caught and logged with \<open>console.error\<close>, no state cell changes and the
  page renders as before. And whenever a file is selected, the format has a quality and
  there is a live preview URL, that URL has already been revoked.
\<close>

lemma preview_failure_logged:
  assumes "s = run env init es"
  shows "(i < length (inflight s) \<and> request_outcome env (inflight s ! i) = Rejected e \<longrightarrow>
      step env s (PreviewSettled i) =
        s\<lparr>page_browser := console_error ''Error updating live preview:'' e
             (snd (convertImage_finish env (req_file (inflight s ! i))
                     (req_format (inflight s ! i)) (req_quality (inflight s ! i))
                     (req_objectUrl (inflight s ! i)) (page_browser s))),
           inflight := take i (inflight s) @ drop (Suc i) (inflight s)\<rparr>
      \<and> livePreviewUrl (step env s (PreviewSettled i)) = livePreviewUrl s
      \<and> render (step env s (PreviewSettled i)) = render s
      \<and> console (page_browser (step env s (PreviewSettled i)))
          = console (page_browser s) @ [(''Error updating live preview:'', e)])
   \<and> (selectedFile s \<noteq> None \<and> supportsQuality s \<and> livePreviewUrl s = Some u \<longrightarrow>
        \<not> url_live (page_browser s) u)"
proof (intro conjI impI)
  assume h: "i < length (inflight s) \<and> request_outcome env (inflight s ! i) = Rejected e"
  have eff: "effects_done s"
    unfolding assms by (rule run_effects_done [OF init_effects_done])
  let ?t = "s\<lparr>page_browser := console_error ''Error updating live preview:'' e
               (snd (convertImage_finish env (req_file (inflight s ! i))
                       (req_format (inflight s ! i)) (req_quality (inflight s ! i))
                       (req_objectUrl (inflight s ! i)) (page_browser s))),
             inflight := take i (inflight s) @ drop (Suc i) (inflight s)\<rparr>"
  from h eff show eq: "step env s (PreviewSettled i) = ?t"
    by (simp only: preview_failure_step)
  show "livePreviewUrl (step env s (PreviewSettled i)) = livePreviewUrl s"
    unfolding eq by simp
  show "render (step env s (PreviewSettled i)) = render s"
    unfolding eq by (rule render_eq) simp_all
  show "console (page_browser (step env s (PreviewSettled i)))
          = console (page_browser s) @ [(''Error updating live preview:'', e)]"
    unfolding eq by (simp add: console_error_def convertImage_finish_browser)
next
  assume h: "selectedFile s \<noteq> None \<and> supportsQuality s \<and> livePreviewUrl s = Some u"
  have "shown_revoked s"
    unfolding assms by (rule reachable_shown_revoked)
  with h show "\<not> url_live (page_browser s) u"
    by (auto simp add: shown_revoked_def url_live_def)
qed

text \<open>
  Claim C7 at a session in which a photo is on preview (URL 2, a converted blob) and an
  image without pixels is chosen next, whose preview conversion fails. The error is
  logged and the preview of the photo stays on display, but its handle is not valid any
  more: the effect revoked URL 2 before it started the conversion that failed (lines 53
  to 55), as its cleanup did (lines 65 to 69).
\<close>

theorem preview_failure_handle_revoked:
  "livePreviewUrl (run demo_codec init (butlast failing_preview_events)) = Some 2
   \<and> url_object (page_browser (run demo_codec init (butlast failing_preview_events))) 2
       = Some (BlobObject \<lparr> blob_type = ''image/jpeg'', blob_bytes = [4, 3, 7, 70] \<rparr>)
   \<and> inflight (run demo_codec init (butlast failing_preview_events)) ! 1
       = \<lparr> req_file = empty_image, req_format = ''jpeg'', req_quality = 90, req_objectUrl = 5 \<rparr>
   \<and> request_outcome demo_codec (inflight (run demo_codec init (butlast failing_preview_events)) ! 1)
       = Rejected ''Failed to convert image''
   \<and> last failing_preview_events = PreviewSettled 1
   \<and> console (page_browser (run demo_codec init failing_preview_events))
       = [(''Error updating live preview:'', ''Failed to convert image'')]
   \<and> livePreviewUrl (run demo_codec init failing_preview_events) = Some 2
   \<and> preview_src (render (run demo_codec init failing_preview_events)) = Some 2
   \<and> revoked (page_browser (run demo_codec init failing_preview_events)) = [1, 2, 2, 2, 5]
   \<and> \<not> url_live (page_browser (run demo_codec init failing_preview_events)) 2"
  by (simp add: failing_preview_events_def run_defs url_live_def url_object_def
      request_outcome_def render_def)

subsection \<open>Claim C8: a download that fails\<close>

lemma handleConvert_rejected:
  assumes "selectedFile s = Some f"
    and "fst (convertImage env f (format s) (quality s) (page_browser s)) = Rejected e"
  shows "handleConvert env s =
     s\<lparr>converting := False,
       page_browser := console_error ''Error converting image:'' e
          (snd (convertImage env f (format s) (quality s) (page_browser s)))\<rparr>"
proof -
  obtain br' where c: "convertImage env f (format s) (quality s) (page_browser s) = (Rejected e, br')"
    using assms(2) by (cases "convertImage env f (format s) (quality s) (page_browser s)") auto
  show ?thesis
    by (simp add: handleConvert_def assms(1) Let_def c)
qed

text \<open>
  When the conversion of \<open>handleConvert\<close> rejects, the \<open>catch\<close> block logs the error
  with \<open>console.error\<close> and does nothing else: the \<open>error\<close> cell keeps its value and
  the page renders as before. The selected file, the format, the quality and the previews
  are unchanged, \<open>converting\<close> is back to false, the object URL of the conversion is
  revoked, and no download is triggered.
\<close>

lemma handleConvert_failure_logged:
  "selectedFile s = Some f
   \<and> fst (convertImage env f (format s) (quality s) (page_browser s)) = Rejected e \<longrightarrow>
     handleConvert env s =
       s\<lparr>converting := False,
         page_browser := console_error ''Error converting image:'' e
            (snd (convertImage env f (format s) (quality s) (page_browser s)))\<rparr>
     \<and> error (handleConvert env s) = error s
     \<and> console (page_browser (handleConvert env s))
         = console (page_browser s) @ [(''Error converting image:'', e)]
     \<and> downloads (page_browser (handleConvert env s)) = downloads (page_browser s)
     \<and> revoked (page_browser (handleConvert env s))
         = revoked (page_browser s) @ [length (created (page_browser s))]
     \<and> (\<not> converting s \<longrightarrow> render (handleConvert env s) = render s)"
proof (intro impI)
  assume h: "selectedFile s = Some f
    \<and> fst (convertImage env f (format s) (quality s) (page_browser s)) = Rejected e"
  let ?c = "convertImage env f (format s) (quality s) (page_browser s)"
  have eq: "handleConvert env s =
       s\<lparr>converting := False, page_browser := console_error ''Error converting image:'' e (snd ?c)\<rparr>"
    using h by (simp add: handleConvert_rejected)
  have settled: "fst ?c \<noteq> Pending" using h by simp
  have br: "console (snd ?c) = console (page_browser s)"
    "downloads (snd ?c) = downloads (page_browser s)"
    by (simp_all add: convertImage_cases Let_def split: option.splits prod.splits)
  have rv: "revoked (snd ?c) = revoked (page_browser s) @ [length (created (page_browser s))]"
    using convertImage_settled_revokes [OF settled] by simp
  have rd: "\<not> converting s \<longrightarrow> render (handleConvert env s) = render s"
    unfolding eq by (intro impI render_eq) simp_all
  show "handleConvert env s =
       s\<lparr>converting := False, page_browser := console_error ''Error converting image:'' e (snd ?c)\<rparr>
     \<and> error (handleConvert env s) = error s
     \<and> console (page_browser (handleConvert env s))
         = console (page_browser s) @ [(''Error converting image:'', e)]
     \<and> downloads (page_browser (handleConvert env s)) = downloads (page_browser s)
     \<and> revoked (page_browser (handleConvert env s))
         = revoked (page_browser s) @ [length (created (page_browser s))]
     \<and> (\<not> converting s \<longrightarrow> render (handleConvert env s) = render s)"
    using rd by (simp add: eq console_error_def br rv)
qed

text \<open>
  Claim C8 at a download that fails: an image without pixels is chosen and submitted,
  and \<open>canvas.toBlob\<close> gives \<open>null\<close>. The error reaches the console only: the \<open>error\<close>
  cell stays empty and the page renders exactly as before the submission, so nothing is
  surfaced to the user. The state is unchanged and no download is triggered, as the claim
  says.
\<close>

theorem handleConvert_failure_not_surfaced:
  "selectedFile (run demo_codec init (butlast failing_download_events)) = Some empty_image
   \<and> fst (convertImage demo_codec empty_image ''jpeg'' 90
            (page_browser (run demo_codec init (butlast failing_download_events))))
       = Rejected ''Failed to convert image''
   \<and> last failing_download_events = Submit
   \<and> error (run demo_codec init failing_download_events) = None
   \<and> render (run demo_codec init failing_download_events)
       = render (run demo_codec init (butlast failing_download_events))
   \<and> console (page_browser (run demo_codec init failing_download_events))
       = [(''Error converting image:'', ''Failed to convert image'')]
   \<and> downloads (page_browser (run demo_codec init failing_download_events)) = []
   \<and> converting (run demo_codec init failing_download_events) = False"
  by (simp add: failing_download_events_def run_defs render_def)

subsection \<open>Claim C9: how often a handle is released\<close>

text \<open>
  Claim C9 at a session in which two preview conversions settle: the handle of the first
  preview (URL 2, created from a blob) is revoked twice, once by the effect body that
  starts the next conversion and once by the cleanup function of that effect.
\<close>

theorem preview_handle_released_twice:
  "url_object (page_browser (run demo_codec init two_previews_events)) 2
     = Some (BlobObject \<lparr> blob_type = ''image/jpeg'', blob_bytes = [4, 3, 7, 70] \<rparr>)
   \<and> revoked (page_browser (run demo_codec init two_previews_events)) = [1, 2, 3, 2, 4]
   \<and> release_count (page_browser (run demo_codec init two_previews_events)) 2 = 2"
  by (simp add: two_previews_events_def run_defs url_object_def release_count_def)

end
